theory Spec2Isabelle
  imports Complex_Main "HOL-Library.AList" "HOL-Library.Multiset"
begin

section \<open>Python values, exceptions and files\<close>

text \<open>
  The program is \<^verbatim>\<open>src/app.py\<close>: a survey tool that keeps an account table
  (\<^verbatim>\<open>users.json\<close>), a question catalog (\<^verbatim>\<open>questions.csv\<close>), one ledger of
  answer records per user (\<^verbatim>\<open>user_data/<name>_data.json\<close>) and the exported
  CSV files. Every function below is the embedding of the Python function of the same name.

  The exceptions the functions can meet. \<open>ReadError\<close> stands for any exception that
  opening or decoding an existing file raises and that is not a \<^verbatim>\<open>FileNotFoundError\<close>
  (\<^verbatim>\<open>PermissionError\<close>, \<^verbatim>\<open>json.JSONDecodeError\<close>, \<^verbatim>\<open>UnicodeDecodeError\<close>).
  Its message, and that of \<open>FileNotFoundError\<close>, depend on the file; \<open>str_error\<close>
  gives them a fixed text.
\<close>

datatype py_error = FileNotFoundError | ReadError | KeyError string | IndexError

text \<open>\<^verbatim>\<open>str(e)\<close>, as the export functions return it in their failure tuple.\<close>

fun str_error :: "py_error \<Rightarrow> string" where
  "str_error FileNotFoundError = ''No such file or directory''"
| "str_error ReadError = ''read error''"
| "str_error (KeyError k) = [CHR 0x27] @ k @ [CHR 0x27]"
| "str_error IndexError = ''list index out of range''"

text \<open>
  A file on disk: absent, present but not readable as what the program expects, or
  present with its decoded content. Writing a file always succeeds in this model and
  replaces the whole content, as \<^verbatim>\<open>open(path, "w")\<close> does.
\<close>

datatype 'a disk_file = Missing | Unreadable | Content 'a

fun read_file :: "'a disk_file \<Rightarrow> py_error + 'a" where
  "read_file Missing = Inl FileNotFoundError"
| "read_file Unreadable = Inl ReadError"
| "read_file (Content x) = Inr x"

text \<open>
  \<^verbatim>\<open>xs[i]\<close> on a Python list: a negative index counts from the end, and an index
  outside \<open>-len .. len - 1\<close> raises \<^verbatim>\<open>IndexError\<close>.
\<close>

definition py_index :: "'a list \<Rightarrow> int \<Rightarrow> py_error + 'a" where
  "py_index xs i =
     (if 0 \<le> i \<and> i < int (length xs) then Inr (xs ! nat i)
      else if i < 0 \<and> - int (length xs) \<le> i then Inr (xs ! nat (int (length xs) + i))
      else Inl IndexError)"

text \<open>
  A Python \<^verbatim>\<open>dict\<close> with string keys, in insertion order, as an association list.
  \<^verbatim>\<open>d[k]\<close> raises \<^verbatim>\<open>KeyError\<close> on a missing key.
\<close>

definition py_getitem :: "(string \<times> 'v) list \<Rightarrow> string \<Rightarrow> py_error + 'v" where
  "py_getitem d k = (case map_of d k of None \<Rightarrow> Inl (KeyError k) | Some v \<Rightarrow> Inr v)"


section \<open>Data model\<close>

text \<open>
  A question is the dict \<^verbatim>\<open>{"sentence", "option1", "option2"}\<close>. A cell read by
  \<^verbatim>\<open>csv.DictReader\<close> is \<^verbatim>\<open>None\<close> when the row is shorter than the header, hence
  the option type.
\<close>

record question =
  sentence :: "string option"
  option1 :: "string option"
  option2 :: "string option"

text \<open>An answer record, as \<^verbatim>\<open>question_page\<close> builds it and the ledger file stores it.\<close>

record response =
  question_id :: int
  selected_option :: int
  selected_text :: string
  confidence :: int
  timestamp :: string

text \<open>An entry of the account table; \<^verbatim>\<open>created_at\<close> is read with a default.\<close>

record account =
  password :: string
  created_at :: "string option"

type_synonym users = "(string \<times> account) list"

text \<open>A CSV file as \<^verbatim>\<open>csv.reader\<close> yields it: a list of rows of cells (a blank line is \<open>[]\<close>).\<close>

type_synonym csv_rows = "string list list"

text \<open>A row of an export file, before the writer renders its cells as text.\<close>

record export_row =
  row_question_id :: int
  row_user :: string
  row_sentence :: "string option"
  row_option1 :: "string option"
  row_option2 :: "string option"
  row_selected_option :: int
  row_selected_text :: string
  row_confidence :: int
  row_timestamp :: string

text \<open>An export file: a header with its rows, or the single placeholder row.\<close>

datatype export_content = Table "string list" "export_row list" | Plain_row "string list"

text \<open>The files the program reads and writes.\<close>

record fs =
  users_file :: "users disk_file"
  questions_file :: "csv_rows disk_file"
  data_files :: "string \<Rightarrow> response list disk_file"
  results_files :: "string \<Rightarrow> export_content disk_file"
  all_export_file :: "export_content disk_file"


section \<open>Response ledger\<close>

definition load_responses :: "string \<Rightarrow> fs \<Rightarrow> py_error + response list" where
  "load_responses username s =
     (case read_file (data_files s username) of
        Inl FileNotFoundError \<Rightarrow> Inr []
      | Inl e \<Rightarrow> Inl e
      | Inr rs \<Rightarrow> Inr rs)"

text \<open>The scan of \<^verbatim>\<open>save_response\<close>: the index of the first record with the given id.\<close>

fun existing_index :: "response list \<Rightarrow> int \<Rightarrow> nat option" where
  "existing_index [] q = None"
| "existing_index (r # rs) q =
     (if question_id r = q then Some 0 else map_option Suc (existing_index rs q))"

text \<open>
  The new list of \<^verbatim>\<open>save_response\<close>. Python's \<^verbatim>\<open>list.sort\<close> is stable, and so is
  \<^const>\<open>sort_key\<close>; a stable sort has one result only.
\<close>

definition upsert :: "response list \<Rightarrow> response \<Rightarrow> response list" where
  "upsert responses response =
     (case existing_index responses (question_id response) of
        Some i \<Rightarrow> responses[i := response]
      | None \<Rightarrow> sort_key question_id (responses @ [response]))"

definition save_response :: "string \<Rightarrow> response \<Rightarrow> fs \<Rightarrow> (py_error + response list) \<times> fs" where
  "save_response username response s =
     (case load_responses username s of
        Inl e \<Rightarrow> (Inl e, s)
      | Inr responses \<Rightarrow>
          (let responses' = upsert responses response
           in (Inr responses',
               s\<lparr>data_files := (data_files s)(username := Content responses')\<rparr>)))"

section \<open>Account store\<close>

definition load_users :: "fs \<Rightarrow> py_error + users" where
  "load_users s =
     (case read_file (users_file s) of
        Inl FileNotFoundError \<Rightarrow> Inr []
      | Inl e \<Rightarrow> Inl e
      | Inr us \<Rightarrow> Inr us)"

definition save_users :: "users \<Rightarrow> fs \<Rightarrow> fs" where
  "save_users us s = s\<lparr>users_file := Content us\<rparr>"

text \<open>
  \<^verbatim>\<open>register_user\<close>. The digest \<^verbatim>\<open>hashlib.sha256(...).hexdigest()\<close> is the parameter
  \<open>hash_password\<close>, the formatted clock reading \<^verbatim>\<open>datetime.now().strftime(...)\<close> the
  parameter \<open>now\<close>. \<^verbatim>\<open>load_users\<close> is called outside any \<^verbatim>\<open>try\<close>, so its exception
  leaves the function. \<^verbatim>\<open>users[username] = ...\<close> on a dict is \<^const>\<open>AList.update\<close>.
\<close>

definition register_user ::
  "(string \<Rightarrow> string) \<Rightarrow> string \<Rightarrow> string \<Rightarrow> string \<Rightarrow> fs \<Rightarrow> (py_error + bool \<times> string) \<times> fs" where
  "register_user hash_password now username pw s =
     (case load_users s of
        Inl e \<Rightarrow> (Inl e, s)
      | Inr us \<Rightarrow>
          if username \<in> fst ` set us then (Inr (False, ''Username already exists''), s)
          else
            (let hashed_password = hash_password pw;
                 us' = AList.update username
                         \<lparr>password = hashed_password, created_at = Some now\<rparr> us
             in (Inr (True, ''Registration successful''), save_users us' s)))"

text \<open>
  \<^verbatim>\<open>delete_user\<close>. \<^verbatim>\<open>os.path.exists\<close> holds of any file that is there, readable or
  not. Removing and writing files succeed in this model, so the \<^verbatim>\<open>except\<close> branch of
  the source is never taken.
\<close>

definition delete_user :: "string \<Rightarrow> fs \<Rightarrow> (py_error + bool \<times> string) \<times> fs" where
  "delete_user username s =
     (case load_users s of
        Inl e \<Rightarrow> (Inl e, s)
      | Inr us \<Rightarrow>
          (let s1 = (if data_files s username \<noteq> Missing
                     then s\<lparr>data_files := (data_files s)(username := Missing)\<rparr> else s);
               s2 = (if username \<in> fst ` set us
                     then save_users (AList.delete username us) s1 else s1)
           in (Inr (True, ''User '' @ [CHR 0x27] @ username @ [CHR 0x27] @ '' deleted successfully''),
               s2)))"

section \<open>Question catalog\<close>

text \<open>
  \<^verbatim>\<open>csv.DictReader\<close>: the first row is the header; blank rows after it are skipped;
  each other row becomes the dict built by assigning the zipped cells in order and then
  \<^verbatim>\<open>None\<close> to every header name beyond the row's length. A dict under construction is
  the list of its assignments, so the last assignment of a key is the value
  \<open>dict_lookup\<close> finds.
\<close>

definition dict_lookup :: "(string \<times> 'v) list \<Rightarrow> string \<Rightarrow> py_error + 'v" where
  "dict_lookup d k = py_getitem (rev d) k"

definition dict_row :: "string list \<Rightarrow> string list \<Rightarrow> (string \<times> string option) list" where
  "dict_row fieldnames row =
     zip fieldnames (map Some row) @ map (\<lambda>k. (k, None)) (drop (length row) fieldnames)"

definition dict_reader :: "csv_rows \<Rightarrow> (string \<times> string option) list list" where
  "dict_reader rows =
     (case rows of
        [] \<Rightarrow> []
      | fieldnames # rest \<Rightarrow> map (dict_row fieldnames) (filter (\<lambda>r. r \<noteq> []) rest))"

text \<open>The loop over the rows; the first missing column raises \<^verbatim>\<open>KeyError\<close>.\<close>

fun read_questions :: "(string \<times> string option) list list \<Rightarrow> py_error + question list" where
  "read_questions [] = Inr []"
| "read_questions (row # rows) =
     (case dict_lookup row ''translated'' of
        Inl e \<Rightarrow> Inl e
      | Inr a \<Rightarrow>
     (case dict_lookup row ''text'' of
        Inl e \<Rightarrow> Inl e
      | Inr b \<Rightarrow>
     (case dict_lookup row ''multi'' of
        Inl e \<Rightarrow> Inl e
      | Inr c \<Rightarrow>
     (case read_questions rows of
        Inl e \<Rightarrow> Inl e
      | Inr questions \<Rightarrow> Inr (\<lparr>sentence = a, option1 = b, option2 = c\<rparr> # questions)))))"

definition sample_questions :: "question list" where
  "sample_questions =
     [\<lparr>sentence = Some ''The movie was really enjoyable and entertaining.'',
       option1 = Some ''I found the film to be quite delightful.'',
       option2 = Some ''The cinematic experience gave me great pleasure.''\<rparr>,
      \<lparr>sentence = Some ''The company announced record profits this quarter.'',
       option1 = Some ''The firm reported unprecedented earnings for this period.'',
       option2 = Some ''The business revealed they had their most successful quarter yet.''\<rparr>,
      \<lparr>sentence = Some ''The researchers discovered a new species of frog.'',
       option1 = Some ''Scientists identified a previously unknown amphibian of the frog family.'',
       option2 = Some ''The research team found a type of frog that was not known before.''\<rparr>]"

text \<open>
  \<^verbatim>\<open>csv.DictWriter\<close>: a row is written in the order of the field names; \<^verbatim>\<open>None\<close> and
  a missing key are written as the empty cell.
\<close>

definition cell_text :: "string option \<Rightarrow> string" where
  "cell_text v = (case v of None \<Rightarrow> [] | Some t \<Rightarrow> t)"

definition dict_writer_row :: "string list \<Rightarrow> (string \<times> string option) list \<Rightarrow> string list" where
  "dict_writer_row fieldnames d =
     map (\<lambda>k. case dict_lookup d k of Inl e \<Rightarrow> [] | Inr v \<Rightarrow> cell_text v) fieldnames"

definition sample_csv :: "question list \<Rightarrow> csv_rows" where
  "sample_csv questions =
     (let fieldnames = [''text'', ''multi'', ''translated'']
      in fieldnames #
         map (\<lambda>q. dict_writer_row fieldnames
                     [(''text'', option1 q), (''multi'', option2 q), (''translated'', sentence q)])
             questions)"

text \<open>
  \<^verbatim>\<open>load_questions\<close>: the \<^verbatim>\<open>try\<close> block reads the catalog and raises
  \<^verbatim>\<open>FileNotFoundError\<close> itself when no question was read; the handler catches
  \<^verbatim>\<open>FileNotFoundError\<close> only, returns the samples and writes them to the catalog file.
\<close>

definition try_read_catalog :: "fs \<Rightarrow> py_error + question list" where
  "try_read_catalog s =
     (case read_file (questions_file s) of
        Inl e \<Rightarrow> Inl e
      | Inr rows \<Rightarrow>
          (case read_questions (dict_reader rows) of
             Inl e \<Rightarrow> Inl e
           | Inr questions \<Rightarrow> if questions = [] then Inl FileNotFoundError else Inr questions))"

definition load_questions :: "fs \<Rightarrow> (py_error + question list) \<times> fs" where
  "load_questions s =
     (case try_read_catalog s of
        Inl FileNotFoundError \<Rightarrow>
          (Inr sample_questions, s\<lparr>questions_file := Content (sample_csv sample_questions)\<rparr>)
      | Inl e \<Rightarrow> (Inl e, s)
      | Inr questions \<Rightarrow> (Inr questions, s))"

text \<open>
  The desktop front end, \<^verbatim>\<open>src/preference.py\<close>, has the same loader as the method
  \<^verbatim>\<open>PreferenceCollector.load_questions\<close>, which \<^verbatim>\<open>__init__\<close> calls with
  \<^verbatim>\<open>self.questions = []\<close>; the result below is the list the method leaves in
  \<^verbatim>\<open>self.questions\<close>. Its catalog is \<^verbatim>\<open>./data/questions.csv\<close>, in a directory
  the program never creates: when \<^verbatim>\<open>./data\<close> is absent, opening the file raises
  \<^verbatim>\<open>FileNotFoundError\<close> for reading and for writing alike, and the second one is raised
  inside the handler.
\<close>

record pc_files =
  data_dir :: bool
  pc_questions_file :: "csv_rows disk_file"

definition pc_try_read_catalog :: "pc_files \<Rightarrow> py_error + question list" where
  "pc_try_read_catalog p =
     (if \<not> data_dir p then Inl FileNotFoundError
      else
        (case read_file (pc_questions_file p) of
           Inl e \<Rightarrow> Inl e
         | Inr rows \<Rightarrow>
             (case read_questions (dict_reader rows) of
                Inl e \<Rightarrow> Inl e
              | Inr questions \<Rightarrow> if questions = [] then Inl FileNotFoundError else Inr questions)))"

definition pc_load_questions :: "pc_files \<Rightarrow> (py_error + question list) \<times> pc_files" where
  "pc_load_questions p =
     (case pc_try_read_catalog p of
        Inl FileNotFoundError \<Rightarrow>
          (if \<not> data_dir p then (Inl FileNotFoundError, p)
           else (Inr sample_questions,
                 p\<lparr>pc_questions_file := Content (sample_csv sample_questions)\<rparr>))
      | Inl e \<Rightarrow> (Inl e, p)
      | Inr questions \<Rightarrow> (Inr questions, p))"

section \<open>Export\<close>

definition export_fieldnames :: "string list" where
  "export_fieldnames =
     [''question_id'', ''user'', ''sentence'', ''option1'', ''option2'',
      ''selected_option'', ''selected_text'', ''confidence'', ''timestamp'']"

definition joined_row :: "string \<Rightarrow> question \<Rightarrow> response \<Rightarrow> export_row" where
  "joined_row username q r =
     \<lparr>row_question_id = question_id r, row_user = username,
      row_sentence = sentence q, row_option1 = option1 q, row_option2 = option2 q,
      row_selected_option = selected_option r, row_selected_text = selected_text r,
      row_confidence = confidence r, row_timestamp = timestamp r\<rparr>"



text \<open>
  The inner loop of \<^verbatim>\<open>export_all_data\<close> for one user: a record whose id is not below
  the catalog length is passed over; an \<^verbatim>\<open>IndexError\<close> ends the user's loop (the
  handler around it prints and goes on with the next user), the entries appended before
  stay.
\<close>

fun user_entries :: "string \<Rightarrow> question list \<Rightarrow> response list \<Rightarrow> export_row list" where
  "user_entries username questions [] = []"
| "user_entries username questions (r # rs) =
     (if question_id r < int (length questions)
      then (case py_index questions (question_id r) of
              Inl e \<Rightarrow> []
            | Inr q \<Rightarrow> joined_row username q r # user_entries username questions rs)
      else user_entries username questions rs)"

fun all_entries :: "string list \<Rightarrow> question list \<Rightarrow> fs \<Rightarrow> export_row list" where
  "all_entries [] questions s = []"
| "all_entries (username # usernames) questions s =
     (case load_responses username s of
        Inl e \<Rightarrow> []
      | Inr responses \<Rightarrow> user_entries username questions responses)
     @ all_entries usernames questions s"

definition export_all_data :: "fs \<Rightarrow> (bool \<times> string) \<times> fs" where
  "export_all_data s =
     (let export_file = ''all_preference_data.csv''
      in case load_users s of
           Inl e \<Rightarrow> ((False, str_error e), s)
         | Inr us \<Rightarrow>
             (case load_questions s of
                (Inl e, s1) \<Rightarrow> ((False, str_error e), s1)
              | (Inr questions, s1) \<Rightarrow>
                  (let all_data = all_entries (map fst us) questions s1
                   in ((True, export_file),
                       s1\<lparr>all_export_file :=
                            Content (if all_data \<noteq> [] then Table export_fieldnames all_data
                                     else Plain_row [''No data available''])\<rparr>))))"

section \<open>Statistics\<close>







section \<open>Example data\<close>

text \<open>A fresh installation: no file exists yet.\<close>

definition fresh_fs :: fs where
  "fresh_fs =
     \<lparr>users_file = Missing, questions_file = Missing, data_files = (\<lambda>u. Missing),
      results_files = (\<lambda>u. Missing), all_export_file = Missing\<rparr>"

text \<open>A state whose only file is the ledger of user \<open>u1\<close>.\<close>

definition ledger_fs :: "response list \<Rightarrow> fs" where
  "ledger_fs rs = fresh_fs\<lparr>data_files := (\<lambda>u. Missing)(''u1'' := Content rs)\<rparr>"

text \<open>An answer record with the given ordinal, choice and confidence.\<close>

definition answer :: "int \<Rightarrow> int \<Rightarrow> int \<Rightarrow> response" where
  "answer q choice conf =
     \<lparr>question_id = q, selected_option = choice,
      selected_text = (if choice = 1 then ''A'' else ''B''), confidence = conf,
      timestamp = ''2024-01-01 10:00:00''\<rparr>"

text \<open>An account, and a state with an account table and the ledger of \<open>u1\<close>.\<close>

definition plain_account :: account where
  "plain_account = \<lparr>password = ''0f3c'', created_at = Some ''2024-01-01 09:00:00''\<rparr>"

definition survey_fs :: "users \<Rightarrow> response list \<Rightarrow> fs" where
  "survey_fs us rs = (ledger_fs rs)\<lparr>users_file := Content us\<rparr>"

section \<open>Properties of the response ledger\<close>

lemma existing_index_None: "existing_index rs q = None \<longleftrightarrow> q \<notin> question_id ` set rs"
  by (induction rs) auto

lemma existing_index_Some:
  "existing_index rs q = Some i \<Longrightarrow>
     i < length rs \<and> question_id (rs ! i) = q \<and> (\<forall>j<i. question_id (rs ! j) \<noteq> q)"
proof (induction rs arbitrary: i)
  case Nil
  then show ?case by simp
next
  case (Cons r rs)
  show ?case
  proof (cases "question_id r = q")
    case True
    with Cons.prems show ?thesis by simp
  next
    case False
    with Cons.prems obtain k where k: "existing_index rs q = Some k" "i = Suc k"
      by auto
    from Cons.IH [OF k(1)] False k(2) show ?thesis
      by (auto simp: less_Suc_eq_0_disj)
  qed
qed

lemma find_update_first:
  "i < length rs \<Longrightarrow> \<forall>j<i. \<not> P (rs ! j) \<Longrightarrow> P x \<Longrightarrow> find P (rs[i := x]) = Some x"
proof (induction rs arbitrary: i)
  case Nil
  then show ?case by simp
next
  case (Cons r rs)
  show ?case
  proof (cases i)
    case 0
    with Cons.prems show ?thesis by simp
  next
    case (Suc k)
    with Cons.prems have "\<not> P r" by auto
    moreover from Suc Cons.prems have "find P (rs[k := x]) = Some x"
      by (intro Cons.IH) auto
    ultimately show ?thesis using Suc by simp
  qed
qed

text \<open>
  C1. When the submitted record's question ordinal already occurs in the user's persisted
  ledger, \<^const>\<open>save_response\<close> replaces in place: the returned list is the one written to
  the ledger file, it is as long as the ledger was, and looking the ordinal up in it
  finds the submitted record.
\<close>

theorem save_response_replaces:
  assumes "data_files s username = Content rs"
    and "question_id response \<in> question_id ` set rs"
  shows "\<exists>rs'. save_response username response s
            = (Inr rs', s\<lparr>data_files := (data_files s)(username := Content rs')\<rparr>)
          \<and> length rs' = length rs
          \<and> find (\<lambda>r. question_id r = question_id response) rs' = Some response"
proof -
  from assms(2) obtain i where i: "existing_index rs (question_id response) = Some i"
    using existing_index_None [of rs "question_id response"] by (cases "existing_index rs (question_id response)") auto
  from existing_index_Some [OF i]
  have "find (\<lambda>r. question_id r = question_id response) (rs[i := response]) = Some response"
    by (intro find_update_first) auto
  with i assms(1) show ?thesis
    by (simp add: save_response_def load_responses_def upsert_def Let_def)
qed

theorem save_response_replaces_witness:
  "data_files (ledger_fs [answer 0 1 3, answer 1 1 4]) ''u1'' = Content [answer 0 1 3, answer 1 1 4]
   \<and> question_id (answer 1 2 2) \<in> question_id ` set [answer 0 1 3, answer 1 1 4]
   \<and> save_response ''u1'' (answer 1 2 2) (ledger_fs [answer 0 1 3, answer 1 1 4])
       = (Inr [answer 0 1 3, answer 1 2 2], ledger_fs [answer 0 1 3, answer 1 2 2])"
  using save_response_replaces
    [of "ledger_fs [answer 0 1 3, answer 1 1 4]" "''u1''" "[answer 0 1 3, answer 1 1 4]" "answer 1 2 2"]
  by (simp add: ledger_fs_def fresh_fs_def answer_def save_response_def load_responses_def
      upsert_def Let_def)












section \<open>Properties of the account store\<close>

lemma update_fresh: "k \<notin> fst ` set xs \<Longrightarrow> AList.update k v xs = xs @ [(k, v)]"
  by (induction xs) auto

text \<open>
  C7. When the account table loads and does not hold the identity, the first
  \<^const>\<open>register_user\<close> succeeds and appends the identity with the digest of its password
  and the time of the call; a second registration of the same identity, with any
  password and at any time, answers "Username already exists" and leaves every file,
  the account table with the first digest and timestamp included, as it was.
\<close>

theorem register_user_twice:
  assumes "load_users s = Inr us"
    and "username \<notin> fst ` set us"
  shows "\<exists>s1. register_user h now1 username pw1 s = (Inr (True, ''Registration successful''), s1)
          \<and> s1 = s\<lparr>users_file :=
                     Content (us @ [(username, \<lparr>password = h pw1, created_at = Some now1\<rparr>)])\<rparr>
          \<and> register_user h now2 username pw2 s1 = (Inr (False, ''Username already exists''), s1)"
  using assms
  by (simp add: register_user_def save_users_def update_fresh load_users_def)

theorem register_user_twice_witness:
  "load_users fresh_fs = Inr []
   \<and> ''u1'' \<notin> fst ` set ([] :: users)
   \<and> register_user (\<lambda>p. ''digest:'' @ p) ''2024-01-01 10:00:00'' ''u1'' ''secret'' fresh_fs
       = (Inr (True, ''Registration successful''),
          fresh_fs\<lparr>users_file :=
            Content [(''u1'', \<lparr>password = ''digest:secret'', created_at = Some ''2024-01-01 10:00:00''\<rparr>)]\<rparr>)
   \<and> register_user (\<lambda>p. ''digest:'' @ p) ''2024-02-02 12:00:00'' ''u1'' ''other''
        (fresh_fs\<lparr>users_file :=
            Content [(''u1'', \<lparr>password = ''digest:secret'', created_at = Some ''2024-01-01 10:00:00''\<rparr>)]\<rparr>)
       = (Inr (False, ''Username already exists''),
          fresh_fs\<lparr>users_file :=
            Content [(''u1'', \<lparr>password = ''digest:secret'', created_at = Some ''2024-01-01 10:00:00''\<rparr>)]\<rparr>)"
  using register_user_twice
    [of fresh_fs "[]" "''u1''" "\<lambda>p. ''digest:'' @ p" "''2024-01-01 10:00:00''" "''secret''"
        "''2024-02-02 12:00:00''" "''other''"]
  by (simp add: load_users_def fresh_fs_def)

text \<open>
  C10. When the account table loads, holds no entry for the identity, and the identity has
  no ledger file, \<^const>\<open>delete_user\<close> returns its success tuple and leaves every file,
  the account table included, as it was.
\<close>

theorem delete_user_absent:
  assumes "load_users s = Inr us"
    and "username \<notin> fst ` set us"
    and "data_files s username = Missing"
  shows "delete_user username s
           = (Inr (True, ''User '' @ [CHR 0x27] @ username @ [CHR 0x27] @ '' deleted successfully''), s)"
  using assms by (simp add: delete_user_def)

theorem delete_user_absent_witness:
  "load_users (fresh_fs\<lparr>users_file := Content [(''u1'', \<lparr>password = ''d'', created_at = None\<rparr>)]\<rparr>)
     = Inr [(''u1'', \<lparr>password = ''d'', created_at = None\<rparr>)]
   \<and> ''ghost'' \<notin> fst ` set [(''u1'', \<lparr>password = ''d'', created_at = None\<rparr>)]
   \<and> data_files (fresh_fs\<lparr>users_file := Content [(''u1'', \<lparr>password = ''d'', created_at = None\<rparr>)]\<rparr>) ''ghost''
       = Missing
   \<and> delete_user ''ghost'' (fresh_fs\<lparr>users_file := Content [(''u1'', \<lparr>password = ''d'', created_at = None\<rparr>)]\<rparr>)
       = (Inr (True, ''User '' @ [CHR 0x27] @ ''ghost'' @ [CHR 0x27] @ '' deleted successfully''),
          fresh_fs\<lparr>users_file := Content [(''u1'', \<lparr>password = ''d'', created_at = None\<rparr>)]\<rparr>)"
  using delete_user_absent
    [of "fresh_fs\<lparr>users_file := Content [(''u1'', \<lparr>password = ''d'', created_at = None\<rparr>)]\<rparr>"
        "[(''u1'', \<lparr>password = ''d'', created_at = None\<rparr>)]" "''ghost''"]
  by (simp add: load_users_def fresh_fs_def)

section \<open>Properties of the question catalog\<close>

lemma read_sample:
  "read_questions (dict_reader (sample_csv sample_questions)) = Inr sample_questions"
  by (simp add: sample_csv_def sample_questions_def dict_reader_def dict_row_def
      dict_writer_row_def dict_lookup_def py_getitem_def cell_text_def)

lemma sample_length: "length sample_questions = 3"
  by (simp add: sample_questions_def)

lemma try_read_seeded:
  "try_read_catalog (s\<lparr>questions_file := Content (sample_csv sample_questions)\<rparr>)
     = Inr sample_questions"
  using sample_length by (auto simp: try_read_catalog_def read_sample)

lemma load_questions_seeds:
  "try_read_catalog s = Inl FileNotFoundError \<Longrightarrow>
     load_questions s
       = (Inr sample_questions, s\<lparr>questions_file := Content (sample_csv sample_questions)\<rparr>)"
  by (simp add: load_questions_def)

lemma load_questions_seeded:
  "load_questions (s\<lparr>questions_file := Content (sample_csv sample_questions)\<rparr>)
     = (Inr sample_questions, s\<lparr>questions_file := Content (sample_csv sample_questions)\<rparr>)"
  by (simp add: load_questions_def try_read_seeded)

lemma try_read_absent:
  "questions_file s = Missing \<Longrightarrow> try_read_catalog s = Inl FileNotFoundError"
  by (simp add: try_read_catalog_def)

lemma try_read_no_rows:
  "questions_file s = Content rows \<Longrightarrow> dict_reader rows = [] \<Longrightarrow>
     try_read_catalog s = Inl FileNotFoundError"
  by (simp add: try_read_catalog_def)

text \<open>
  C8. When the catalog file is absent, \<^const>\<open>load_questions\<close> returns the three built-in
  sample questions and writes them to the catalog file under the columns
  \<open>text\<close>, \<open>multi\<close>, \<open>translated\<close>; reading the file so written yields the same three
  questions in the same order, and a second \<^const>\<open>load_questions\<close> returns them without
  writing anything.
\<close>

theorem load_questions_round_trip:
  assumes "questions_file s = Missing"
  shows "\<exists>s1. load_questions s = (Inr sample_questions, s1)
          \<and> length sample_questions = 3
          \<and> s1 = s\<lparr>questions_file := Content (sample_csv sample_questions)\<rparr>
          \<and> try_read_catalog s1 = Inr sample_questions
          \<and> load_questions s1 = (Inr sample_questions, s1)"
  using assms
  by (simp add: load_questions_seeds try_read_absent sample_length try_read_seeded
      load_questions_seeded)

theorem load_questions_round_trip_witness:
  "questions_file fresh_fs = Missing
   \<and> load_questions fresh_fs
       = (Inr sample_questions, fresh_fs\<lparr>questions_file := Content (sample_csv sample_questions)\<rparr>)
   \<and> sample_csv sample_questions
       = [[''text'', ''multi'', ''translated''],
          [''I found the film to be quite delightful.'',
           ''The cinematic experience gave me great pleasure.'',
           ''The movie was really enjoyable and entertaining.''],
          [''The firm reported unprecedented earnings for this period.'',
           ''The business revealed they had their most successful quarter yet.'',
           ''The company announced record profits this quarter.''],
          [''Scientists identified a previously unknown amphibian of the frog family.'',
           ''The research team found a type of frog that was not known before.'',
           ''The researchers discovered a new species of frog.'']]
   \<and> load_questions (fresh_fs\<lparr>questions_file := Content (sample_csv sample_questions)\<rparr>)
       = (Inr sample_questions, fresh_fs\<lparr>questions_file := Content (sample_csv sample_questions)\<rparr>)"
proof -
  have absent: "questions_file fresh_fs = Missing"
    by (simp add: fresh_fs_def)
  have rows: "sample_csv sample_questions
       = [[''text'', ''multi'', ''translated''],
          [''I found the film to be quite delightful.'',
           ''The cinematic experience gave me great pleasure.'',
           ''The movie was really enjoyable and entertaining.''],
          [''The firm reported unprecedented earnings for this period.'',
           ''The business revealed they had their most successful quarter yet.'',
           ''The company announced record profits this quarter.''],
          [''Scientists identified a previously unknown amphibian of the frog family.'',
           ''The research team found a type of frog that was not known before.'',
           ''The researchers discovered a new species of frog.'']]"
    by (simp add: sample_csv_def sample_questions_def dict_writer_row_def dict_lookup_def
        py_getitem_def cell_text_def)
  from load_questions_round_trip [OF absent] absent rows show ?thesis
    by auto
qed

lemma pc_try_read_seeded:
  "data_dir p \<Longrightarrow>
     pc_try_read_catalog (p\<lparr>pc_questions_file := Content (sample_csv sample_questions)\<rparr>)
       = Inr sample_questions"
  using sample_length by (auto simp: pc_try_read_catalog_def read_sample)

text \<open>
  C3 (as amended). \<^const>\<open>load_questions\<close> falls back to the three sample questions, and
  writes them to the catalog file, when the file is absent or yields no data row; the
  file so written is then read without the fallback. An existing file that cannot be
  read makes it raise: the handler catches \<^verbatim>\<open>FileNotFoundError\<close> only. The same holds
  of \<^const>\<open>pc_load_questions\<close> when the directory of its catalog exists.
\<close>

theorem load_questions_fallback:
  "((questions_file s = Missing
       \<or> (\<exists>rows. questions_file s = Content rows \<and> dict_reader rows = [])) \<longrightarrow>
      load_questions s
        = (Inr sample_questions, s\<lparr>questions_file := Content (sample_csv sample_questions)\<rparr>)
      \<and> length sample_questions = 3
      \<and> try_read_catalog (s\<lparr>questions_file := Content (sample_csv sample_questions)\<rparr>)
          = Inr sample_questions
      \<and> load_questions (s\<lparr>questions_file := Content (sample_csv sample_questions)\<rparr>)
          = (Inr sample_questions, s\<lparr>questions_file := Content (sample_csv sample_questions)\<rparr>))
   \<and> (questions_file s = Unreadable \<longrightarrow> load_questions s = (Inl ReadError, s))
   \<and> (data_dir p \<and> (pc_questions_file p = Missing
         \<or> (\<exists>rows. pc_questions_file p = Content rows \<and> dict_reader rows = [])) \<longrightarrow>
      pc_load_questions p
        = (Inr sample_questions, p\<lparr>pc_questions_file := Content (sample_csv sample_questions)\<rparr>)
      \<and> pc_try_read_catalog (p\<lparr>pc_questions_file := Content (sample_csv sample_questions)\<rparr>)
          = Inr sample_questions
      \<and> pc_load_questions (p\<lparr>pc_questions_file := Content (sample_csv sample_questions)\<rparr>)
          = (Inr sample_questions, p\<lparr>pc_questions_file := Content (sample_csv sample_questions)\<rparr>))
   \<and> (data_dir p \<and> pc_questions_file p = Unreadable \<longrightarrow> pc_load_questions p = (Inl ReadError, p))"
proof (intro conjI impI)
  assume "questions_file s = Missing
       \<or> (\<exists>rows. questions_file s = Content rows \<and> dict_reader rows = [])"
  then have "try_read_catalog s = Inl FileNotFoundError"
    by (auto simp: try_read_absent try_read_no_rows)
  then show "load_questions s
        = (Inr sample_questions, s\<lparr>questions_file := Content (sample_csv sample_questions)\<rparr>)"
    by (rule load_questions_seeds)
next
  assume "questions_file s = Unreadable"
  then show "load_questions s = (Inl ReadError, s)"
    by (simp add: load_questions_def try_read_catalog_def)
next
  assume a: "data_dir p \<and> (pc_questions_file p = Missing
         \<or> (\<exists>rows. pc_questions_file p = Content rows \<and> dict_reader rows = []))"
  then have "pc_try_read_catalog p = Inl FileNotFoundError"
    by (auto simp: pc_try_read_catalog_def)
  with a show "pc_load_questions p
        = (Inr sample_questions, p\<lparr>pc_questions_file := Content (sample_csv sample_questions)\<rparr>)"
    by (simp add: pc_load_questions_def)
  from a show "pc_try_read_catalog (p\<lparr>pc_questions_file := Content (sample_csv sample_questions)\<rparr>)
          = Inr sample_questions"
    by (simp add: pc_try_read_seeded)
  from a show "pc_load_questions (p\<lparr>pc_questions_file := Content (sample_csv sample_questions)\<rparr>)
          = (Inr sample_questions, p\<lparr>pc_questions_file := Content (sample_csv sample_questions)\<rparr>)"
    by (simp add: pc_load_questions_def pc_try_read_seeded)
next
  assume "data_dir p \<and> pc_questions_file p = Unreadable"
  then show "pc_load_questions p = (Inl ReadError, p)"
    by (simp add: pc_load_questions_def pc_try_read_catalog_def)
qed (simp_all add: sample_length try_read_seeded load_questions_seeded)

theorem load_questions_fallback_witness:
  "questions_file (fresh_fs\<lparr>questions_file := Content [[''text'', ''multi'', ''translated''], []]\<rparr>)
     = Content [[''text'', ''multi'', ''translated''], []]
   \<and> dict_reader [[''text'', ''multi'', ''translated''], []] = []
   \<and> load_questions (fresh_fs\<lparr>questions_file := Content [[''text'', ''multi'', ''translated''], []]\<rparr>)
       = (Inr sample_questions, fresh_fs\<lparr>questions_file := Content (sample_csv sample_questions)\<rparr>)
   \<and> questions_file (fresh_fs\<lparr>questions_file := Unreadable\<rparr>) = Unreadable
   \<and> load_questions (fresh_fs\<lparr>questions_file := Unreadable\<rparr>)
       = (Inl ReadError, fresh_fs\<lparr>questions_file := Unreadable\<rparr>)
   \<and> pc_load_questions \<lparr>data_dir = True, pc_questions_file = Missing\<rparr>
       = (Inr sample_questions,
          \<lparr>data_dir = True, pc_questions_file = Content (sample_csv sample_questions)\<rparr>)
   \<and> pc_load_questions \<lparr>data_dir = True, pc_questions_file = Unreadable\<rparr>
       = (Inl ReadError, \<lparr>data_dir = True, pc_questions_file = Unreadable\<rparr>)"
  using load_questions_fallback
      [of "fresh_fs\<lparr>questions_file := Content [[''text'', ''multi'', ''translated''], []]\<rparr>"
          "\<lparr>data_dir = True, pc_questions_file = Missing\<rparr>"]
    load_questions_fallback
      [of "fresh_fs\<lparr>questions_file := Unreadable\<rparr>"
          "\<lparr>data_dir = True, pc_questions_file = Unreadable\<rparr>"]
  by (simp add: dict_reader_def)

text \<open>
  The claim C3 as stated fails: on a catalog file that exists and cannot be read, and on
  one whose header lacks the column \<open>translated\<close>, \<^const>\<open>load_questions\<close> raises.
\<close>

theorem load_questions_raises:
  "load_questions (fresh_fs\<lparr>questions_file := Unreadable\<rparr>)
     = (Inl ReadError, fresh_fs\<lparr>questions_file := Unreadable\<rparr>)
   \<and> load_questions
       (fresh_fs\<lparr>questions_file := Content [[''sentence'', ''option1'', ''option2''],
                                             [''Hello.'', ''Hi.'', ''Good day.'']]\<rparr>)
     = (Inl (KeyError ''translated''),
        fresh_fs\<lparr>questions_file := Content [[''sentence'', ''option1'', ''option2''],
                                             [''Hello.'', ''Hi.'', ''Good day.'']]\<rparr>)"
  by (simp add: load_questions_def try_read_catalog_def dict_reader_def dict_row_def
      dict_lookup_def py_getitem_def)

section \<open>Properties of the export\<close>

lemma py_index_in_range:
  "0 \<le> i \<Longrightarrow> i < int (length xs) \<Longrightarrow> py_index xs i = Inr (xs ! nat i)"
  by (simp add: py_index_def)








lemma user_entries_nonneg:
  "\<forall>r\<in>set rs. 0 \<le> question_id r \<Longrightarrow>
     user_entries u qs rs
       = map (\<lambda>r. joined_row u (qs ! nat (question_id r)) r)
           (filter (\<lambda>r. question_id r < int (length qs)) rs)"
  by (induction rs) (auto simp: py_index_in_range)

lemma load_questions_other_files:
  "load_questions s = (res, s1) \<Longrightarrow>
     data_files s1 = data_files s \<and> users_file s1 = users_file s
     \<and> results_files s1 = results_files s \<and> all_export_file s1 = all_export_file s"
  by (auto simp: load_questions_def split: sum.splits py_error.splits)

lemma load_responses_cong:
  "data_files s1 = data_files s \<Longrightarrow> load_responses u s1 = load_responses u s"
  by (simp add: load_responses_def)

lemma all_entries_nonneg:
  assumes "\<forall>u\<in>set names. \<forall>rs. load_responses u s = Inr rs \<longrightarrow> (\<forall>r\<in>set rs. 0 \<le> question_id r)"
  shows "all_entries names qs s
     = concat (map (\<lambda>u. case load_responses u s of
                           Inl e \<Rightarrow> []
                         | Inr rs \<Rightarrow> map (\<lambda>r. joined_row u (qs ! nat (question_id r)) r)
                                      (filter (\<lambda>r. question_id r < int (length qs)) rs)) names)"
  using assms
  by (induction names) (auto simp: user_entries_nonneg split: sum.splits)

text \<open>
  C5 (as amended). When the account table and the catalog load and no record of a
  loadable ledger has a negative ordinal, \<^const>\<open>export_all_data\<close> returns success; going
  through the identities in the order of the account table, it contributes nothing for
  an identity whose ledger does not load, passes over every record whose ordinal is at
  least the catalog length, joins every other record with its question, and writes the
  rows so collected under the header, or the single row \<open>No data available\<close> when there
  is none.
\<close>

theorem export_all_data_skips:
  assumes "load_users s = Inr us"
    and "load_questions s = (Inr questions, s1)"
    and "\<forall>u\<in>fst ` set us. \<forall>rs. load_responses u s = Inr rs \<longrightarrow> (\<forall>r\<in>set rs. 0 \<le> question_id r)"
  shows "export_all_data s
     = ((True, ''all_preference_data.csv''),
        s1\<lparr>all_export_file := Content
           (let all_data = concat (map (\<lambda>u. case load_responses u s of
                     Inl e \<Rightarrow> []
                   | Inr rs \<Rightarrow> map (\<lambda>r. joined_row u (questions ! nat (question_id r)) r)
                                (filter (\<lambda>r. question_id r < int (length questions)) rs))
                 (map fst us))
            in if all_data \<noteq> [] then Table export_fieldnames all_data
               else Plain_row [''No data available''])\<rparr>)"
proof -
  from load_questions_other_files [OF assms(2)] have d: "data_files s1 = data_files s"
    by simp
  have "\<forall>u\<in>set (map fst us). \<forall>rs. load_responses u s1 = Inr rs \<longrightarrow> (\<forall>r\<in>set rs. 0 \<le> question_id r)"
    using assms(3) by (simp add: load_responses_cong [OF d])
  from all_entries_nonneg [OF this, of questions] assms(1,2) show ?thesis
    by (simp add: export_all_data_def Let_def load_responses_cong [OF d])
qed

theorem export_all_data_skips_witness:
  "load_users (survey_fs [(''u1'', plain_account), (''u2'', plain_account)]
                 [answer 0 1 3, answer 7 1 1, answer 2 2 5]
               \<lparr>data_files := (\<lambda>u. Missing)(''u1'' := Content [answer 0 1 3, answer 7 1 1, answer 2 2 5],
                                              ''u2'' := Unreadable)\<rparr>)
     = Inr [(''u1'', plain_account), (''u2'', plain_account)]
   \<and> load_responses ''u2''
        (survey_fs [(''u1'', plain_account), (''u2'', plain_account)]
                 [answer 0 1 3, answer 7 1 1, answer 2 2 5]
               \<lparr>data_files := (\<lambda>u. Missing)(''u1'' := Content [answer 0 1 3, answer 7 1 1, answer 2 2 5],
                                              ''u2'' := Unreadable)\<rparr>)
     = Inl ReadError
   \<and> export_all_data
        (survey_fs [(''u1'', plain_account), (''u2'', plain_account)]
                 [answer 0 1 3, answer 7 1 1, answer 2 2 5]
               \<lparr>data_files := (\<lambda>u. Missing)(''u1'' := Content [answer 0 1 3, answer 7 1 1, answer 2 2 5],
                                              ''u2'' := Unreadable)\<rparr>)
     = ((True, ''all_preference_data.csv''),
        survey_fs [(''u1'', plain_account), (''u2'', plain_account)]
                 [answer 0 1 3, answer 7 1 1, answer 2 2 5]
               \<lparr>data_files := (\<lambda>u. Missing)(''u1'' := Content [answer 0 1 3, answer 7 1 1, answer 2 2 5],
                                              ''u2'' := Unreadable),
                questions_file := Content (sample_csv sample_questions),
                all_export_file := Content (Table export_fieldnames
                  [joined_row ''u1'' (sample_questions ! 0) (answer 0 1 3),
                   joined_row ''u1'' (sample_questions ! 2) (answer 2 2 5)])\<rparr>)"
proof -
  let ?s = "survey_fs [(''u1'', plain_account), (''u2'', plain_account)]
                 [answer 0 1 3, answer 7 1 1, answer 2 2 5]
               \<lparr>data_files := (\<lambda>u. Missing)(''u1'' := Content [answer 0 1 3, answer 7 1 1, answer 2 2 5],
                                              ''u2'' := Unreadable)\<rparr>"
  have us: "load_users ?s = Inr [(''u1'', plain_account), (''u2'', plain_account)]"
    by (simp add: load_users_def survey_fs_def ledger_fs_def fresh_fs_def)
  have qs: "load_questions ?s
      = (Inr sample_questions, ?s\<lparr>questions_file := Content (sample_csv sample_questions)\<rparr>)"
    by (rule load_questions_seeds)
      (simp add: try_read_absent survey_fs_def ledger_fs_def fresh_fs_def)
  have r1: "load_responses ''u1'' ?s = Inr [answer 0 1 3, answer 7 1 1, answer 2 2 5]"
    by (simp add: load_responses_def)
  have r2: "load_responses ''u2'' ?s = Inl ReadError"
    by (simp add: load_responses_def)
  have nonneg: "\<forall>u\<in>fst ` set [(''u1'', plain_account), (''u2'', plain_account)].
      \<forall>rs. load_responses u ?s = Inr rs \<longrightarrow> (\<forall>r\<in>set rs. 0 \<le> question_id r)"
    by (simp add: r1 r2) (simp add: answer_def)
  from export_all_data_skips [OF us qs nonneg] us r2 show ?thesis
    by (simp add: r1) (simp add: sample_length answer_def)
qed

text \<open>
  The claim C5 as stated fails on negative ordinals. With a catalog of three questions, a
  ledger that holds the ordinal \<open>-5\<close> before the ordinal 0 exports nothing: the
  \<^verbatim>\<open>IndexError\<close> of the first record ends the loop over that identity's records, so
  the record of ordinal 0, which is in range, is lost. And the ordinal \<open>-1\<close> is not
  passed over: its record is joined with the last question.
\<close>

theorem export_all_data_negative_ordinal:
  "export_all_data (survey_fs [(''u1'', plain_account)] [answer (- 5) 1 3, answer 0 2 2])
     = ((True, ''all_preference_data.csv''),
        survey_fs [(''u1'', plain_account)] [answer (- 5) 1 3, answer 0 2 2]
          \<lparr>questions_file := Content (sample_csv sample_questions),
           all_export_file := Content (Plain_row [''No data available''])\<rparr>)
   \<and> export_all_data (survey_fs [(''u1'', plain_account)] [answer (- 1) 1 3])
     = ((True, ''all_preference_data.csv''),
        survey_fs [(''u1'', plain_account)] [answer (- 1) 1 3]
          \<lparr>questions_file := Content (sample_csv sample_questions),
           all_export_file := Content (Table export_fieldnames
             [joined_row ''u1'' (sample_questions ! 2) (answer (- 1) 1 3)])\<rparr>)"
proof -
  have qs: "load_questions (survey_fs us rs)
      = (Inr sample_questions,
         survey_fs us rs\<lparr>questions_file := Content (sample_csv sample_questions)\<rparr>)" for us rs
    by (rule load_questions_seeds)
      (simp add: try_read_absent survey_fs_def ledger_fs_def fresh_fs_def)
  have us: "load_users (survey_fs us rs) = Inr us" for us rs
    by (simp add: load_users_def survey_fs_def)
  have rs: "load_responses ''u1''
      (survey_fs us rs\<lparr>questions_file := Content (sample_csv sample_questions)\<rparr>) = Inr rs" for us rs
    by (simp add: load_responses_def survey_fs_def ledger_fs_def)
  show ?thesis
    by (simp add: export_all_data_def qs us rs py_index_def sample_length answer_def)
qed

section \<open>Properties of the statistics\<close>





end
